theory Spec2Isabelle
  imports Complex_Main
begin

section \<open>Python values: ticks and exceptions\<close>

text \<open>
  A tick is a dict produced by \<^verbatim>\<open>json.loads\<close>. The keys the program reads are
  \<^verbatim>\<open>ev\<close>, \<^verbatim>\<open>sym\<close>, \<^verbatim>\<open>p\<close>, \<^verbatim>\<open>t\<close> and \<^verbatim>\<open>s\<close>; a key that is absent is \<open>None\<close>, so that
  \<^verbatim>\<open>tick["p"]\<close> on a dict without it is the \<open>KeyError\<close> branch of the model. A price
  is a finite number, an \<^verbatim>\<open>int\<close> or a \<^verbatim>\<open>float\<close> of the source, and is modelled by its
  exact value as a rational; the floats \<^verbatim>\<open>inf\<close> and \<^verbatim>\<open>nan\<close> are outside the model.
  Comparing two prices is exact in the source as in the model. Timestamps are integers
  in milliseconds.
\<close>

record tick =
  tk_ev :: "string option"
  tk_sym :: "string option"
  tk_p :: "rat option"
  tk_t :: "int option"
  tk_s :: "int option"

text \<open>
  The exceptions the modelled code can raise. \<open>TimestampRangeError\<close> stands for the
  \<^verbatim>\<open>ValueError\<close>/\<^verbatim>\<open>OverflowError\<close> of \<^verbatim>\<open>datetime.fromtimestamp\<close> outside the years 1..9999.
\<close>

datatype py_error =
    KeyError string
  | ZeroDivisionError
  | OverflowError
  | TimestampRangeError
  | AttributeError string
  | TypeError
  | ImportError string
  | RedisConnectionError
  | RedisTimeoutError
  | RedisOtherError

section \<open>strategy.py: MomentumScanner\<close>

definition MOMENTUM_THRESHOLD :: rat where "MOMENTUM_THRESHOLD = 3 / 2"
definition VOLUME_THRESHOLD :: int where "VOLUME_THRESHOLD = 1000"
definition TARGET_HOUR :: int where "TARGET_HOUR = 15"
definition TARGET_MINUTE_START :: int where "TARGET_MINUTE_START = 45"
definition TARGET_MINUTE_END :: int where "TARGET_MINUTE_END = 59"
definition HISTORY_WINDOW :: nat where "HISTORY_WINDOW = 5"

record scanner =
  tick_history :: "string \<rightharpoonup> tick list"
  spy_price :: "rat option"

definition scanner_init :: scanner where
  "scanner_init = \<lparr> tick_history = Map.empty, spy_price = None \<rparr>"

text \<open>\<^verbatim>\<open>update_spy\<close>: \<^verbatim>\<open>self.spy_price = tick["p"]\<close>.\<close>

definition update_spy :: "scanner \<Rightarrow> tick \<Rightarrow> (py_error + unit) \<times> scanner" where
  "update_spy sc tick =
     (case tk_p tick of
        None \<Rightarrow> (Inl (KeyError ''p''), sc)
      | Some v \<Rightarrow> (Inr (), sc\<lparr>spy_price := Some v\<rparr>))"

text \<open>The slice \<^verbatim>\<open>xs[-n:]\<close>: the last \<open>n\<close> elements, all of \<open>xs\<close> when it is shorter
  (and all of it for \<open>n = 0\<close>, where the slice is \<^verbatim>\<open>xs[0:]\<close>).\<close>

definition py_last_n :: "nat \<Rightarrow> 'a list \<Rightarrow> 'a list" where
  "py_last_n n xs = (if n = 0 then xs else drop (length xs - n) xs)"

text \<open>The comprehension \<^verbatim>\<open>[tick["p"] for tick in ...]\<close>; it raises at the first dict
  without the key.\<close>

fun prices_of :: "tick list \<Rightarrow> py_error + rat list" where
  "prices_of [] = Inr []"
| "prices_of (x # xs) =
     (case tk_p x of
        None \<Rightarrow> Inl (KeyError ''p'')
      | Some v \<Rightarrow> (case prices_of xs of Inl e \<Rightarrow> Inl e | Inr vs \<Rightarrow> Inr (v # vs)))"

definition is_momentum_up :: "scanner \<Rightarrow> string \<Rightarrow> rat \<Rightarrow> py_error + bool" where
  "is_momentum_up sc symbol current_price =
     (let history = (case tick_history sc symbol of None \<Rightarrow> [] | Some h \<Rightarrow> h) in
      if length history < HISTORY_WINDOW then Inr False
      else
        (case prices_of (py_last_n HISTORY_WINDOW history) of
           Inl e \<Rightarrow> Inl e
         | Inr recent_prices \<Rightarrow>
             Inr (list_all (\<lambda>prev_price. current_price > prev_price) recent_prices)))"

text \<open>
  \<^verbatim>\<open>_in_final_15_minutes\<close>: the hour and minute of the UTC wall clock at
  \<^verbatim>\<open>timestamp / 1000\<close> seconds after the epoch. Both depend only on the whole seconds,
  \<open>timestamp div 1000\<close> (rounded down, also for negative timestamps).
\<close>

definition in_final_15_minutes :: "int \<Rightarrow> py_error + bool" where
  "in_final_15_minutes timestamp =
     (let secs = timestamp div 1000 in
      if secs < - 62135596800 \<or> 253402300799 < secs then Inl TimestampRangeError
      else
        (let hour = (secs div 3600) mod 24; minute = (secs div 60) mod 60 in
         Inr (hour = TARGET_HOUR \<and> TARGET_MINUTE_START \<le> minute \<and> minute \<le> TARGET_MINUTE_END)))"

text \<open>
  An \<^verbatim>\<open>int\<close> that meets a \<^verbatim>\<open>float\<close> in an arithmetic operation is converted first, and
  the conversion raises \<^verbatim>\<open>OverflowError\<close> from the magnitude \<open>2 ^ 1024 - 2 ^ 970\<close> on, the
  least that rounds beyond the largest float. No finite \<^verbatim>\<open>float\<close> is that large.
\<close>

definition float_overflows :: "rat \<Rightarrow> bool" where
  "float_overflows v = (2 ^ 1024 - 2 ^ 970 \<le> \<bar>v\<bar>)"

text \<open>
  \<^verbatim>\<open>_calculate_relative_strength\<close>, with \<^verbatim>\<open>base_price\<close> a \<^verbatim>\<open>float\<close>, as the signature
  declares and as the table of \<^verbatim>\<open>main.py\<close> holds. In \<^verbatim>\<open>(price - base_price) / base_price\<close>
  the subtraction comes first and raises for a price too large to convert; then Python's
  \<^verbatim>\<open>/\<close> raises on a zero divisor, where HOL's returns 0, so the raise is written out.
  \<^verbatim>\<open>if self.spy_price\<close> is false for \<open>None\<close> and for \<open>0.0\<close>. Operations on floats
  themselves do not raise (they yield \<^verbatim>\<open>inf\<close>).

  The value returned is the exact one. The source rounds each operation to a float, so
  its value differs from this one by the accumulated rounding error, and within that
  error of the threshold its comparison may differ. Which exception is raised, and
  whether one is, does not depend on the rounding.
\<close>

definition calculate_relative_strength :: "scanner \<Rightarrow> rat \<Rightarrow> rat \<Rightarrow> py_error + rat" where
  "calculate_relative_strength sc price base_price =
     (if float_overflows price then Inl OverflowError
      else if base_price = 0 then Inl ZeroDivisionError
      else
        (let stock_return = (price - base_price) / base_price in
         case (case spy_price sc of
                 None \<Rightarrow> Inr 0
               | Some sp \<Rightarrow>
                   if sp = 0 then Inr 0
                   else if float_overflows sp then Inl OverflowError
                   else Inr ((sp - base_price) / base_price)) of
           Inl e \<Rightarrow> Inl e
         | Inr spy_return \<Rightarrow> Inr ((stock_return - spy_return) * 100)))"

text \<open>
  \<^verbatim>\<open>evaluate_tick\<close>. The result is the value returned or the exception raised, with the
  scanner as the call leaves it: the history is written before the checks, so it is
  written also when a later line raises.
\<close>

definition evaluate_tick :: "scanner \<Rightarrow> tick \<Rightarrow> rat \<Rightarrow> (py_error + bool) \<times> scanner" where
  "evaluate_tick sc tick base_price =
     (case tk_sym tick of
        None \<Rightarrow> (Inl (KeyError ''sym''), sc)
      | Some symbol \<Rightarrow>
     (case tk_p tick of
        None \<Rightarrow> (Inl (KeyError ''p''), sc)
      | Some price \<Rightarrow>
     (case tk_t tick of
        None \<Rightarrow> (Inl (KeyError ''t''), sc)
      | Some timestamp \<Rightarrow>
        (let size = (case tk_s tick of None \<Rightarrow> 0 | Some v \<Rightarrow> v);
             appended = (case tick_history sc symbol of None \<Rightarrow> [] | Some h \<Rightarrow> h) @ [tick];
             stored = (if length appended > HISTORY_WINDOW * 2
                       then py_last_n HISTORY_WINDOW appended else appended);
             sc' = sc\<lparr>tick_history := (tick_history sc)(symbol \<mapsto> stored)\<rparr>
         in
           if spy_price sc' = None then (Inr False, sc')
           else
             (case in_final_15_minutes timestamp of
                Inl e \<Rightarrow> (Inl e, sc')
              | Inr in_window \<Rightarrow>
                  if \<not> in_window then (Inr False, sc')
                  else
                    (case calculate_relative_strength sc' price base_price of
                       Inl e \<Rightarrow> (Inl e, sc')
                     | Inr rel_strength \<Rightarrow>
                         if rel_strength < MOMENTUM_THRESHOLD then (Inr False, sc')
                         else if size < VOLUME_THRESHOLD then (Inr False, sc')
                         else
                           (case is_momentum_up sc' symbol price of
                              Inl e \<Rightarrow> (Inl e, sc')
                            | Inr up \<Rightarrow>
                                if \<not> up then (Inr False, sc') else (Inr True, sc'))))))))"

text \<open>\<^verbatim>\<open>self.tick_history.get(symbol, [])\<close>, and the list \<^verbatim>\<open>evaluate_tick\<close> stores for a
  symbol whose history was \<open>h\<close>; both are used to state the properties below.\<close>

definition history_of :: "scanner \<Rightarrow> string \<Rightarrow> tick list" where
  "history_of sc symbol = (case tick_history sc symbol of None \<Rightarrow> [] | Some h \<Rightarrow> h)"

definition recorded :: "tick list \<Rightarrow> tick \<Rightarrow> tick list" where
  "recorded h tick =
     (if length (h @ [tick]) > HISTORY_WINDOW * 2 then py_last_n HISTORY_WINDOW (h @ [tick])
      else h @ [tick])"

text \<open>The scanner once \<^verbatim>\<open>evaluate_tick\<close> has run its lines 53 to 55 for a tick of
  \<open>symbol\<close>, and the bound the specification puts on every stored history.\<close>

definition after_append :: "scanner \<Rightarrow> string \<Rightarrow> tick \<Rightarrow> scanner" where
  "after_append sc symbol tick =
     sc\<lparr>tick_history := (tick_history sc)(symbol \<mapsto> recorded (history_of sc symbol) tick)\<rparr>"

definition history_bounded :: "scanner \<Rightarrow> bool" where
  "history_bounded sc = (\<forall>symbol. length (history_of sc symbol) \<le> 2 * HISTORY_WINDOW)"

text \<open>The operations of the engine, and a run of them from the state \<^verbatim>\<open>__init__\<close> builds.
  An operation that raises leaves the scanner as it was at the raise.\<close>

datatype scanner_op = UpdateSpy tick | EvaluateTick tick rat

fun scanner_step :: "scanner \<Rightarrow> scanner_op \<Rightarrow> scanner" where
  "scanner_step sc (UpdateSpy tick) = snd (update_spy sc tick)"
| "scanner_step sc (EvaluateTick tick base_price) = snd (evaluate_tick sc tick base_price)"

definition scanner_run :: "scanner \<Rightarrow> scanner_op list \<Rightarrow> scanner" where
  "scanner_run sc ops = foldl scanner_step sc ops"

section \<open>main.py: TradingBot\<close>

text \<open>\<^verbatim>\<open>str.upper\<close> and \<^verbatim>\<open>str.lower\<close> on ASCII text: the letters a..z and A..Z change,
  every other byte stays.\<close>

definition upper_char :: "char \<Rightarrow> char" where
  "upper_char c =
     (let n = (of_char c :: nat) in if 97 \<le> n \<and> n \<le> 122 then char_of (n - 32) else c)"

definition lower_char :: "char \<Rightarrow> char" where
  "lower_char c =
     (let n = (of_char c :: nat) in if 65 \<le> n \<and> n \<le> 90 then char_of (n + 32) else c)"

definition upper :: "string \<Rightarrow> string" where
  "upper str = map upper_char str"

definition lower :: "string \<Rightarrow> string" where
  "lower str = map lower_char str"

record trading_bot =
  base_prices :: "string \<rightharpoonup> rat"
  bot_scanner :: scanner

definition trading_bot_init :: trading_bot where
  "trading_bot_init =
     \<lparr> base_prices = map_of [(''SPY'', 530), (''AAPL'', 185), (''MSFT'', 430),
                              (''NVDA'', 1100), (''TSLA'', 185)],
       bot_scanner = scanner_init \<rparr>"

datatype bot_log =
    InvalidTick
  | BuySignal string rat
  | ProcessingError string py_error

definition validate_tick :: "tick \<Rightarrow> bool" where
  "validate_tick tick = (tk_sym tick \<noteq> None \<and> tk_p tick \<noteq> None)"

text \<open>
  \<^verbatim>\<open>handle_tick\<close>. The upper-cased symbol selects the branch and the base price; the
  scanner receives the tick itself. \<^verbatim>\<open>if base_price := self.base_prices.get(symbol)\<close> skips
  a symbol without a base price and a base price of zero. An exception of the scanner is
  logged and swallowed, the scanner keeping what it had written.
\<close>

definition handle_tick :: "trading_bot \<Rightarrow> tick \<Rightarrow> bot_log list \<times> trading_bot" where
  "handle_tick tb tick =
     (if \<not> validate_tick tick then ([InvalidTick], tb)
      else
        (case (tk_sym tick, tk_p tick) of
           (Some raw_symbol, Some price) \<Rightarrow>
             (let symbol = upper raw_symbol in
              if symbol = ''SPY'' then
                (case update_spy (bot_scanner tb) tick of
                   (Inl e, sc') \<Rightarrow> ([ProcessingError symbol e], tb\<lparr>bot_scanner := sc'\<rparr>)
                 | (Inr u, sc') \<Rightarrow> ([], tb\<lparr>bot_scanner := sc'\<rparr>))
              else
                (case base_prices tb symbol of
                   None \<Rightarrow> ([], tb)
                 | Some base_price \<Rightarrow>
                     if base_price = 0 then ([], tb)
                     else
                       (case evaluate_tick (bot_scanner tb) tick base_price of
                          (Inl e, sc') \<Rightarrow> ([ProcessingError symbol e], tb\<lparr>bot_scanner := sc'\<rparr>)
                        | (Inr True, sc') \<Rightarrow> ([BuySignal symbol price], tb\<lparr>bot_scanner := sc'\<rparr>)
                        | (Inr False, sc') \<Rightarrow> ([], tb\<lparr>bot_scanner := sc'\<rparr>))))
         | _ \<Rightarrow> ([InvalidTick], tb)))"

definition handle_ticks :: "trading_bot \<Rightarrow> tick list \<Rightarrow> trading_bot" where
  "handle_ticks tb ticks = foldl (\<lambda>b tick. snd (handle_tick b tick)) tb ticks"

section \<open>polygon_ws.py: PolygonWebSocketClient\<close>

definition TICKERS :: "string list" where
  "TICKERS = [''AAPL'', ''MSFT'', ''NVDA'', ''TSLA'']"
definition RECONNECT_DELAY :: nat where "RECONNECT_DELAY = 5"
definition MAX_RECONNECT_ATTEMPTS :: nat where "MAX_RECONNECT_ATTEMPTS = 5"

text \<open>
  What a handler does to the world, in order: \<^verbatim>\<open>time.sleep\<close>, the start of a connection
  (\<^verbatim>\<open>run\<close> builds a \<^verbatim>\<open>WebSocketApp\<close> and starts its thread), the frames sent on open,
  and the close of the socket.
\<close>

datatype ws_action =
    Sleep nat
  | StartConnection
  | SendAuth
  | SendSubscribe string
  | CloseSocket

record ws_client =
  ws_created :: bool
  reconnect_attempts :: nat
  should_reconnect :: bool

definition ws_client_init :: ws_client where
  "ws_client_init = \<lparr> ws_created = False, reconnect_attempts = 0, should_reconnect = True \<rparr>"

definition run :: "ws_client \<Rightarrow> ws_action list \<times> ws_client" where
  "run c = ([StartConnection], c\<lparr>ws_created := True\<rparr>)"

definition handle_signal :: "ws_client \<Rightarrow> ws_action list \<times> ws_client" where
  "handle_signal c =
     (let c' = c\<lparr>should_reconnect := False\<rparr> in
      if ws_created c' then ([CloseSocket], c') else ([], c'))"

definition on_close :: "ws_client \<Rightarrow> ws_action list \<times> ws_client" where
  "on_close c =
     (if should_reconnect c \<and> reconnect_attempts c < MAX_RECONNECT_ATTEMPTS then
        (let c' = c\<lparr>reconnect_attempts := reconnect_attempts c + 1\<rparr>;
             (acts, c'') = run c'
         in (Sleep RECONNECT_DELAY # acts, c''))
      else ([], c))"

definition on_open :: "ws_client \<Rightarrow> ws_action list \<times> ws_client" where
  "on_open c =
     (SendAuth # map SendSubscribe TICKERS, c\<lparr>reconnect_attempts := 0\<rparr>)"

text \<open>The callbacks the socket library and the signal handler make, and a sequence of them.\<close>

datatype ws_event = Closed | Opened | Signalled

fun ws_handle :: "ws_client \<Rightarrow> ws_event \<Rightarrow> ws_action list \<times> ws_client" where
  "ws_handle c Closed = on_close c"
| "ws_handle c Opened = on_open c"
| "ws_handle c Signalled = handle_signal c"

fun ws_run :: "ws_client \<Rightarrow> ws_event list \<Rightarrow> ws_action list \<times> ws_client" where
  "ws_run c [] = ([], c)"
| "ws_run c (e # es) =
     (let (acts, c') = ws_handle c e; (acts', c'') = ws_run c' es in (acts @ acts', c''))"

section \<open>redis_pubsub.py: RedisPubSub\<close>

text \<open>
  The Redis server and \<^verbatim>\<open>json.dumps\<close> are outside the program, so what each call to them
  does is a parameter: \<open>None\<close> or \<open>Inr\<close> when the call returns, the exception when it
  raises. \<open>connect_outcome k\<close> is attempt \<open>k\<close> of \<^verbatim>\<open>_connect\<close> (building the client and
  pinging it).
\<close>

record redis_env =
  ping_outcome :: "py_error option"
  connect_outcome :: "nat \<Rightarrow> py_error option"
  dumps_outcome :: "py_error + string"
  publish_outcome :: "py_error + nat"

datatype bus_action =
    BusSleep nat
  | BusConnect
  | BusPublish string string
  | BusSubscribe string

text \<open>\<^verbatim>\<open>isinstance(e, redis.RedisError)\<close>: the connection and timeout errors are
  subclasses of it.\<close>

fun is_RedisError :: "py_error \<Rightarrow> bool" where
  "is_RedisError RedisConnectionError = True"
| "is_RedisError RedisTimeoutError = True"
| "is_RedisError RedisOtherError = True"
| "is_RedisError e = False"

text \<open>The loop of \<^verbatim>\<open>_connect\<close> over \<^verbatim>\<open>range(self.max_retries)\<close>: the last attempt re-raises,
  an earlier one sleeps \<open>2 ^ attempt\<close> seconds; an exception that is not a
  \<^verbatim>\<open>redis.ConnectionError\<close> is not caught.\<close>

fun connect_attempts ::
  "nat \<Rightarrow> (nat \<Rightarrow> py_error option) \<Rightarrow> nat list \<Rightarrow> (py_error + unit) \<times> bus_action list" where
  "connect_attempts max_retries outcome [] = (Inr (), [])"
| "connect_attempts max_retries outcome (attempt # rest) =
     (case outcome attempt of
        None \<Rightarrow> (Inr (), [BusConnect])
      | Some e \<Rightarrow>
          if e = RedisConnectionError then
            (if int attempt = int max_retries - 1 then (Inl e, [BusConnect])
             else
               (let (r, acts) = connect_attempts max_retries outcome rest
                in (r, BusConnect # BusSleep (2 ^ attempt) # acts)))
          else (Inl e, [BusConnect]))"

definition connect :: "nat \<Rightarrow> (nat \<Rightarrow> py_error option) \<Rightarrow> (py_error + unit) \<times> bus_action list" where
  "connect max_retries outcome = connect_attempts max_retries outcome [0..<max_retries]"

text \<open>The decorator \<^verbatim>\<open>_ensure_connection\<close>: a ping that raises \<^verbatim>\<open>redis.ConnectionError\<close> or
  \<^verbatim>\<open>AttributeError\<close> leads to \<^verbatim>\<open>_connect\<close>, whose exception is not caught; any other
  exception of the ping leaves the wrapper at once.\<close>

fun reconnects_on :: "py_error \<Rightarrow> bool" where
  "reconnects_on RedisConnectionError = True"
| "reconnects_on (AttributeError a) = True"
| "reconnects_on e = False"

definition ensure_connection ::
  "nat \<Rightarrow> redis_env \<Rightarrow> (py_error + 'a) \<times> bus_action list \<Rightarrow> (py_error + 'a) \<times> bus_action list" where
  "ensure_connection max_retries env func =
     (case ping_outcome env of
        None \<Rightarrow> func
      | Some e \<Rightarrow>
          if reconnects_on e then
            (case connect max_retries (connect_outcome env) of
               (Inl e', acts) \<Rightarrow> (Inl e', acts)
             | (Inr u, acts) \<Rightarrow> (case func of (r, acts') \<Rightarrow> (r, acts @ acts')))
          else (Inl e, []))"

text \<open>
  \<^verbatim>\<open>publish_tick\<close>. The handlers of the \<^verbatim>\<open>try\<close> are tried in order. An exception that is
  not a \<^verbatim>\<open>redis.RedisError\<close> reaches the second clause, \<^verbatim>\<open>except json.JSONEncodeError\<close>;
  the \<^verbatim>\<open>json\<close> module has no attribute of that name (it has \<^verbatim>\<open>JSONDecodeError\<close>), so
  evaluating the clause raises \<^verbatim>\<open>AttributeError\<close>, which leaves the function.
\<close>

definition publish_tick ::
  "nat \<Rightarrow> redis_env \<Rightarrow> string \<Rightarrow> (py_error + bool) \<times> bus_action list" where
  "publish_tick max_retries env symbol =
     ensure_connection max_retries env
       (let channel = ''tick:'' @ lower symbol in
        case dumps_outcome env of
          Inl e \<Rightarrow>
            if is_RedisError e then (Inr False, [])
            else (Inl (AttributeError ''JSONEncodeError''), [])
        | Inr payload \<Rightarrow>
            (case publish_outcome env of
               Inl e \<Rightarrow>
                 if is_RedisError e then (Inr False, [BusPublish channel payload])
                 else (Inl (AttributeError ''JSONEncodeError''), [BusPublish channel payload])
             | Inr subscribers \<Rightarrow> (Inr True, [BusPublish channel payload])))"

text \<open>
  \<^verbatim>\<open>subscribe_to\<close>. \<^verbatim>\<open>pubsub.listen()\<close> is a blocking generator: each item of the list is
  what one \<^verbatim>\<open>next\<close> on it produced, a message or an exception, with the reading of
  \<^verbatim>\<open>time.time()\<close> at which the loop body runs for it. After the last item nothing
  arrives any more and the generator blocks: the call never returns (\<open>Listening\<close>).
  The call of \<^verbatim>\<open>pubsub.subscribe\<close> is taken to succeed.
\<close>

record message =
  msg_type :: string
  msg_data :: string

datatype listen_item = Yields rat message | Raises rat py_error

datatype sub_outcome =
    Unsubscribed rat
  | Propagated rat py_error
  | Listening

text \<open>\<^verbatim>\<open>timeout and (time.time() - start_time) > timeout\<close>; \<open>None\<close> and \<open>0\<close> are false.\<close>

definition timed_out :: "rat option \<Rightarrow> rat \<Rightarrow> rat \<Rightarrow> bool" where
  "timed_out timeout start_time now =
     (case timeout of None \<Rightarrow> False | Some T \<Rightarrow> T \<noteq> 0 \<and> now - start_time > T)"

text \<open>The loop; \<open>loads\<close> is \<^verbatim>\<open>json.loads\<close> (\<open>None\<close> for a \<^verbatim>\<open>JSONDecodeError\<close>), and the
  second component lists the payloads handed to the callback, whose own exceptions are
  caught and logged.\<close>

fun listen_loop ::
  "rat option \<Rightarrow> rat \<Rightarrow> (string \<Rightarrow> tick option) \<Rightarrow> listen_item list \<Rightarrow> sub_outcome \<times> tick list" where
  "listen_loop timeout start_time loads [] = (Listening, [])"
| "listen_loop timeout start_time loads (Yields now m # rest) =
     (if timed_out timeout start_time now then (Unsubscribed now, [])
      else if msg_type m \<noteq> ''message'' then listen_loop timeout start_time loads rest
      else
        (case loads (msg_data m) of
           None \<Rightarrow> listen_loop timeout start_time loads rest
         | Some data \<Rightarrow>
             (let (out, delivered) = listen_loop timeout start_time loads rest
              in (out, data # delivered))))"
| "listen_loop timeout start_time loads (Raises now e # rest) =
     (if is_RedisError e then (Unsubscribed now, []) else (Propagated now e, []))"

definition subscribe_to ::
  "nat \<Rightarrow> redis_env \<Rightarrow> string \<Rightarrow> (string \<Rightarrow> tick option) \<Rightarrow> rat option \<Rightarrow> rat \<Rightarrow>
   listen_item list \<Rightarrow> (py_error + sub_outcome \<times> tick list) \<times> bus_action list" where
  "subscribe_to max_retries env symbol loads timeout start_time items =
     ensure_connection max_retries env
       (let channel = ''tick:'' @ lower symbol in
        (Inr (listen_loop timeout start_time loads items), [BusSubscribe channel]))"

section \<open>Module namespaces\<close>

text \<open>
  The statements at the top level of a module, as far as they bind names: an import binds
  the module name, a \<^verbatim>\<open>from\<close> import the names listed, an assignment its target, a
  \<^verbatim>\<open>def\<close> and a \<^verbatim>\<open>class\<close> their name. The methods of a class are attributes of the
  class, not names of the module. The body under \<^verbatim>\<open>if __name__ == "__main__"\<close> does not
  run when the module is imported.
\<close>

datatype py_stmt =
    Import string
  | FromImport string "string list"
  | Assign string
  | ExprStmt
  | FunctionDef string
  | ClassDef string "string list"
  | IfMain "py_stmt list"

fun bound_names :: "py_stmt \<Rightarrow> string list" where
  "bound_names (Import m) = [m]"
| "bound_names (FromImport m names) = names"
| "bound_names (Assign x) = [x]"
| "bound_names ExprStmt = []"
| "bound_names (FunctionDef f) = [f]"
| "bound_names (ClassDef c methods) = [c]"
| "bound_names (IfMain body) = []"

definition module_namespace :: "py_stmt list \<Rightarrow> string list" where
  "module_namespace stmts = concat (map bound_names stmts)"

fun class_methods :: "string \<Rightarrow> py_stmt list \<Rightarrow> string list" where
  "class_methods c [] = []"
| "class_methods c (ClassDef c' methods # rest) =
     (if c' = c then methods else class_methods c rest)"
| "class_methods c (stmt # rest) = class_methods c rest"

text \<open>The top level of \<^verbatim>\<open>redis_pubsub.py\<close>, statement by statement.\<close>

definition redis_pubsub_module :: "py_stmt list" where
  "redis_pubsub_module =
     [Import ''redis'', Import ''json'', Import ''logging'',
      FromImport ''typing'' [''Any'', ''Callable'', ''Dict'', ''Optional''],
      FromImport ''functools'' [''wraps''],
      Import ''time'',
      ExprStmt,
      Assign ''logger'',
      ClassDef ''RedisPubSub''
        [''__init__'', ''_connect'', ''_ensure_connection'', ''publish_tick'',
         ''subscribe_to'', ''close''],
      IfMain [FunctionDef ''sample_callback'', Assign ''pubsub'', ExprStmt, ExprStmt, ExprStmt]]"

text \<open>\<^verbatim>\<open>from m import name\<close> for a module that is a single file: the name must be bound
  in the module's namespace, else \<^verbatim>\<open>ImportError\<close>.\<close>

definition from_import :: "py_stmt list \<Rightarrow> string \<Rightarrow> py_error + unit" where
  "from_import module_stmts name =
     (if name \<in> set (module_namespace module_stmts) then Inr () else Inl (ImportError name))"

text \<open>
  \<^verbatim>\<open>process_tick\<close> and \<^verbatim>\<open>on_message\<close> of the connector, for a frame already decoded into
  its ticks: a trade tick with a symbol is handed to \<^verbatim>\<open>publish_tick\<close>; the list is the
  ticks handed over. The module's top level runs first: its sixth line is
  \<^verbatim>\<open>from redis_pubsub import publish_tick\<close>, and an exception there ends the program before
  any client exists.
\<close>

definition process_tick :: "tick \<Rightarrow> (string \<times> tick) list" where
  "process_tick tick =
     (if tk_ev tick = Some ''T'' then
        (case tk_sym tick of None \<Rightarrow> [] | Some symbol \<Rightarrow> [(symbol, tick)])
      else [])"

definition on_message :: "tick list \<Rightarrow> (string \<times> tick) list" where
  "on_message frame = concat (map process_tick frame)"

definition polygon_ws_program :: "tick list list \<Rightarrow> py_error + (string \<times> tick) list" where
  "polygon_ws_program frames =
     (case from_import redis_pubsub_module ''publish_tick'' of
        Inl e \<Rightarrow> Inl e
      | Inr u \<Rightarrow> Inr (concat (map on_message frames)))"

section \<open>Concrete inputs\<close>

text \<open>The inputs of the test at the end of \<^verbatim>\<open>strategy.py\<close>: five stored dicts that carry
  only a price, and the tick of its "Valid entry signal" case, with a timestamp at 15:50
  UTC.\<close>

definition price_tick :: "rat \<Rightarrow> tick" where
  "price_tick v = \<lparr> tk_ev = None, tk_sym = None, tk_p = Some v, tk_t = None, tk_s = None \<rparr>"

definition test_tick :: "string \<Rightarrow> rat \<Rightarrow> int \<Rightarrow> int \<Rightarrow> tick" where
  "test_tick symbol price timestamp volume =
     \<lparr> tk_ev = None, tk_sym = Some symbol, tk_p = Some price, tk_t = Some timestamp,
       tk_s = Some volume \<rparr>"

definition nvda_history :: "tick list" where
  "nvda_history = map price_tick [1130, 1132, 1134, 1136, 1138]"

definition valid_entry_scanner :: scanner where
  "valid_entry_scanner =
     \<lparr> tick_history = [''NVDA'' \<mapsto> nvda_history], spy_price = Some 530 \<rparr>"

definition valid_entry_tick :: tick where
  "valid_entry_tick = test_tick ''NVDA'' 1140 57000000 1200"

text \<open>Eleven ticks of one symbol, and a scanner that already holds the first ten.\<close>

definition eleven_ops :: "scanner_op list" where
  "eleven_ops =
     map (\<lambda>v. EvaluateTick (test_tick ''NVDA'' v 57000000 1200) 1100)
       [1, 2, 3, 4, 5, 6, 7, 8, 9, 10, 11]"

definition full_scanner :: scanner where
  "full_scanner =
     \<lparr> tick_history = [''NVDA'' \<mapsto> map price_tick [1, 2, 3, 4, 5, 6, 7, 8, 9, 10]],
       spy_price = None \<rparr>"

text \<open>Two ticks of one instrument whose symbols differ in case only.\<close>

definition lower_case_tick :: tick where
  "lower_case_tick = test_tick ''nvda'' 1140 57000000 1200"

definition upper_case_tick :: tick where
  "upper_case_tick = test_tick ''NVDA'' 1141 57000001 1200"

text \<open>A Redis server that answers every call; the same with a payload \<^verbatim>\<open>json.dumps\<close>
  rejects (a value such as a set raises \<^verbatim>\<open>TypeError\<close>); a server the client cannot
  reach.\<close>

definition healthy_env :: redis_env where
  "healthy_env =
     \<lparr> ping_outcome = None, connect_outcome = (\<lambda>k. None),
       dumps_outcome = Inr ''{}'', publish_outcome = Inr 1 \<rparr>"

definition unserializable_env :: redis_env where
  "unserializable_env = healthy_env\<lparr>dumps_outcome := Inl TypeError\<rparr>"

definition redis_down_env :: redis_env where
  "redis_down_env =
     \<lparr> ping_outcome = Some RedisConnectionError,
       connect_outcome = (\<lambda>k. Some RedisConnectionError),
       dumps_outcome = Inr ''{}'', publish_outcome = Inl RedisConnectionError \<rparr>"

text \<open>The confirmation Redis sends for a subscription, and a published message.\<close>

definition subscribe_confirmation :: message where
  "subscribe_confirmation = \<lparr> msg_type = ''subscribe'', msg_data = ''1'' \<rparr>"

definition tick_message :: message where
  "tick_message = \<lparr> msg_type = ''message'', msg_data = ''{}'' \<rparr>"

section \<open>Properties of the Momentum Engine\<close>

subsection \<open>Auxiliary facts\<close>

lemma prices_of_snoc:
  "prices_of (xs @ [x]) = Inr vs \<Longrightarrow> tk_p x = Some v \<Longrightarrow> v \<in> set vs"
  by (induction xs arbitrary: vs) (auto split: option.splits sum.splits)

lemma prices_of_error: "prices_of xs = Inl e \<Longrightarrow> e = KeyError ''p''"
  by (induction xs) (auto split: option.splits sum.splits)

lemma recorded_snoc: "\<exists>ys. recorded h tick = ys @ [tick]"
  by (auto simp: recorded_def py_last_n_def HISTORY_WINDOW_def)

lemma recorded_last: "last (recorded h tick) = tick"
  using recorded_snoc [of h tick] by auto

lemma recorded_length: "length h \<le> 2 * HISTORY_WINDOW \<Longrightarrow> length (recorded h tick) \<le> 2 * HISTORY_WINDOW"
  by (auto simp: recorded_def py_last_n_def HISTORY_WINDOW_def)

lemma recorded_compacts:
  "length (h @ [tick]) > 2 * HISTORY_WINDOW \<Longrightarrow>
   recorded h tick = drop (length (h @ [tick]) - HISTORY_WINDOW) (h @ [tick]) \<and>
   length (recorded h tick) = HISTORY_WINDOW"
  by (auto simp: recorded_def py_last_n_def HISTORY_WINDOW_def)

lemma recorded_appends:
  "length (h @ [tick]) \<le> 2 * HISTORY_WINDOW \<Longrightarrow> recorded h tick = h @ [tick]"
  by (auto simp: recorded_def)

lemma py_last_n_snoc: "0 < n \<Longrightarrow> \<exists>zs. py_last_n n (ys @ [x]) = zs @ [x]"
  by (auto simp: py_last_n_def)

lemma evaluate_tick_snd:
  "tk_sym tick = Some symbol \<Longrightarrow> tk_p tick = Some price \<Longrightarrow> tk_t tick = Some ts \<Longrightarrow>
   snd (evaluate_tick sc tick bp) =
     sc\<lparr>tick_history := (tick_history sc)(symbol \<mapsto> recorded (history_of sc symbol) tick)\<rparr>"
  by (simp add: evaluate_tick_def recorded_def history_of_def Let_def split: sum.splits)

lemma evaluate_tick_snd_ill:
  "tk_sym tick = None \<or> tk_p tick = None \<or> tk_t tick = None \<Longrightarrow>
   snd (evaluate_tick sc tick bp) = sc"
  by (auto simp add: evaluate_tick_def split: option.splits)

lemma is_momentum_up_error: "is_momentum_up sc symbol price = Inl e \<Longrightarrow> e = KeyError ''p''"
  by (auto simp: is_momentum_up_def Let_def split: if_splits sum.splits dest: prices_of_error)

lemma in_final_15_minutes_error: "in_final_15_minutes ts = Inl e \<Longrightarrow> e = TimestampRangeError"
  by (auto simp: in_final_15_minutes_def Let_def split: if_splits)

lemma calculate_relative_strength_zero_division:
  "(calculate_relative_strength sc price bp = Inl ZeroDivisionError) =
     (bp = 0 \<and> \<not> float_overflows price)"
  by (simp add: calculate_relative_strength_def Let_def split: option.splits)

text \<open>A price below \<open>2 ^ 20\<close> is far from the overflow bound; the test is evaluated
  through this case first.\<close>

lemma small_not_overflows: "\<bar>v\<bar> < 2 ^ 20 \<Longrightarrow> \<not> float_overflows v"
proof -
  assume v: "\<bar>v\<bar> < 2 ^ 20"
  have a: "(2::rat) ^ 971 \<le> 2 ^ 1024" by (rule power_increasing) simp_all
  have b: "(2::rat) ^ 20 \<le> 2 ^ 970" by (rule power_increasing) simp_all
  have c: "(2::rat) ^ 971 = 2 * 2 ^ 970" by (simp only: power_Suc [symmetric]) simp
  from a b c v have "\<bar>v\<bar> < 2 ^ 1024 - 2 ^ 970" by linarith
  then show ?thesis by (simp only: float_overflows_def not_le)
qed

lemma float_overflows_code [code]:
  "float_overflows v = (if \<bar>v\<bar> < 2 ^ 20 then False else 2 ^ 1024 - 2 ^ 970 \<le> \<bar>v\<bar>)"
  using small_not_overflows [of v] by (simp add: float_overflows_def)

lemma not_overflows_1140: "\<not> float_overflows 1140"
  by (rule small_not_overflows) simp

lemma evaluate_tick_fst:
  assumes "tk_sym tick = Some symbol" "tk_p tick = Some price" "tk_t tick = Some ts"
  shows "fst (evaluate_tick sc tick bp) =
     (if spy_price sc = None then Inr False
      else
        (case in_final_15_minutes ts of
           Inl e \<Rightarrow> Inl e
         | Inr in_window \<Rightarrow>
             if \<not> in_window then Inr False
             else
               (case calculate_relative_strength (after_append sc symbol tick) price bp of
                  Inl e \<Rightarrow> Inl e
                | Inr rel_strength \<Rightarrow>
                    if rel_strength < MOMENTUM_THRESHOLD then Inr False
                    else if (case tk_s tick of None \<Rightarrow> 0 | Some v \<Rightarrow> v) < VOLUME_THRESHOLD
                    then Inr False
                    else
                      (case is_momentum_up (after_append sc symbol tick) symbol price of
                         Inl e \<Rightarrow> Inl e
                       | Inr up \<Rightarrow> Inr up))))"
  using assms
  by (simp add: evaluate_tick_def Let_def after_append_def recorded_def history_of_def
        split: sum.splits)


lemma momentum_self_fails:
  assumes "tick_history sc symbol = Some (ys @ [tick])" "tk_p tick = Some price"
  shows "is_momentum_up sc symbol price \<noteq> Inr True"
proof -
  obtain zs where zs: "py_last_n HISTORY_WINDOW (ys @ [tick]) = zs @ [tick]"
    using py_last_n_snoc [of HISTORY_WINDOW ys tick] by (auto simp: HISTORY_WINDOW_def)
  show ?thesis
    using assms zs prices_of_snoc [of zs tick _ price]
    by (auto simp: is_momentum_up_def Let_def list_all_iff split: sum.splits)
qed

text \<open>
  The tick under evaluation is the last element of the history the momentum check reads,
  and no price exceeds itself: \<^verbatim>\<open>evaluate_tick\<close> returns \<open>True\<close> for no scanner, tick and
  base price.
\<close>

lemma evaluate_tick_never_signals: "fst (evaluate_tick sc tick bp) \<noteq> Inr True"
proof (cases "tk_sym tick = None \<or> tk_p tick = None \<or> tk_t tick = None")
  case True
  then show ?thesis by (auto simp: evaluate_tick_def split: option.splits)
next
  case False
  then obtain symbol price ts where
    wf: "tk_sym tick = Some symbol" "tk_p tick = Some price" "tk_t tick = Some ts"
    by auto
  obtain ys where ys: "recorded (history_of sc symbol) tick = ys @ [tick]"
    using recorded_snoc by blast
  have "is_momentum_up (after_append sc symbol tick) symbol price \<noteq> Inr True"
    by (rule momentum_self_fails [of _ _ ys tick]) (simp_all add: after_append_def ys wf)
  then show ?thesis
    by (auto simp: evaluate_tick_fst [OF wf] split: sum.splits if_splits)
qed

lemma in_window_57000000: "in_final_15_minutes 57000000 = Inr True"
  by code_simp

lemma valid_entry_tick_fields:
  "tk_sym valid_entry_tick = Some ''NVDA'' \<and> tk_p valid_entry_tick = Some 1140 \<and>
   tk_t valid_entry_tick = Some 57000000"
  by (simp add: valid_entry_tick_def test_tick_def)

lemma history_bounded_evaluate:
  assumes "history_bounded sc"
  shows "history_bounded (snd (evaluate_tick sc tick bp))"
proof (cases "tk_sym tick = None \<or> tk_p tick = None \<or> tk_t tick = None")
  case True
  then show ?thesis using assms by (simp add: evaluate_tick_snd_ill)
next
  case False
  then obtain symbol price ts where
    wf: "tk_sym tick = Some symbol" "tk_p tick = Some price" "tk_t tick = Some ts"
    by auto
  show ?thesis
    unfolding history_bounded_def
  proof
    fix other
    show "length (history_of (snd (evaluate_tick sc tick bp)) other) \<le> 2 * HISTORY_WINDOW"
    proof (cases "other = symbol")
      case True
      have "length (history_of sc symbol) \<le> 2 * HISTORY_WINDOW"
        using assms by (simp add: history_bounded_def)
      then show ?thesis
        using True recorded_length [of "history_of sc symbol" tick]
        by (simp add: evaluate_tick_snd [OF wf] history_of_def)
    next
      case False
      have "length (history_of sc other) \<le> 2 * HISTORY_WINDOW"
        using assms by (simp add: history_bounded_def)
      then show ?thesis
        using False by (simp add: evaluate_tick_snd [OF wf] history_of_def)
    qed
  qed
qed

lemma history_bounded_update_spy:
  "history_bounded sc \<Longrightarrow> history_bounded (snd (update_spy sc tick))"
  by (simp add: history_bounded_def update_spy_def history_of_def split: option.splits)

lemma history_bounded_step:
  "history_bounded sc \<Longrightarrow> history_bounded (scanner_step sc op)"
  by (cases op) (simp_all add: history_bounded_evaluate history_bounded_update_spy)

lemma history_bounded_run:
  "history_bounded sc \<Longrightarrow> history_bounded (scanner_run sc ops)"
  unfolding scanner_run_def
  by (induction ops arbitrary: sc) (simp_all add: history_bounded_step)

lemma history_bounded_init: "history_bounded scanner_init"
  by (simp add: history_bounded_def scanner_init_def history_of_def)


subsection \<open>C1: the valid entry signal\<close>

text \<open>
  Claim C1: with reference price 530.0, base price 1100.0, a tick at price 1140.0 and size
  1200 whose timestamp is inside the target window, and a prior history of exactly five
  strictly increasing prices below 1140.0, \<^verbatim>\<open>evaluate\<close> returns true, the momentum check
  comparing the current price with the five prices recorded before the current tick.

  On the code the call returns false. The timestamp is in the window, the relative
  strength is 610/11 percent, above the threshold, the size is above the volume threshold,
  and \<^verbatim>\<open>_is_momentum_up\<close> on the prior history answers true; but \<^verbatim>\<open>evaluate_tick\<close> appends
  the tick before it calls \<^verbatim>\<open>_is_momentum_up\<close>, whose slice of the last five entries then
  ends with the tick itself, and 1140 > 1140 is false.
\<close>

theorem valid_entry_signal_rejected:
  "in_final_15_minutes 57000000 = Inr True \<and>
   calculate_relative_strength valid_entry_scanner 1140 1100 = Inr (610 / 11) \<and>
   is_momentum_up valid_entry_scanner ''NVDA'' 1140 = Inr True \<and>
   fst (evaluate_tick valid_entry_scanner valid_entry_tick 1100) = Inr False"
  by code_simp

subsection \<open>C4: the bound on the stored history\<close>

text \<open>
  Claim C4: for every symbol the stored history has at most \<open>2N\<close> entries at every
  operation boundary (\<open>N = 5\<close>), and once an append makes the length exceed \<open>2N\<close> the
  history is compacted to exactly the \<open>N\<close> most recent entries, oldest first.

  The bound holds after every sequence of \<^verbatim>\<open>update_spy\<close> and \<^verbatim>\<open>evaluate_tick\<close> calls on a
  new scanner, whatever each call returned or raised. For a tick with its three fields,
  the history stored for its symbol is the old one with the tick at the end, and when
  that has more than \<open>2N\<close> entries, its last \<open>N\<close>, in the same order.
\<close>

theorem history_length_invariant:
  "history_bounded (scanner_run scanner_init ops) \<and>
   (tk_sym tick = Some symbol \<and> tk_p tick \<noteq> None \<and> tk_t tick \<noteq> None \<longrightarrow>
      (2 * HISTORY_WINDOW < length (history_of sc symbol @ [tick]) \<longrightarrow>
         history_of (snd (evaluate_tick sc tick bp)) symbol =
           drop (length (history_of sc symbol @ [tick]) - HISTORY_WINDOW) (history_of sc symbol @ [tick]) \<and>
         length (history_of (snd (evaluate_tick sc tick bp)) symbol) = HISTORY_WINDOW) \<and>
      (length (history_of sc symbol @ [tick]) \<le> 2 * HISTORY_WINDOW \<longrightarrow>
         history_of (snd (evaluate_tick sc tick bp)) symbol = history_of sc symbol @ [tick]))"
proof -
  have inv: "history_bounded (scanner_run scanner_init ops)"
    by (rule history_bounded_run [OF history_bounded_init])
  have step: "history_of (snd (evaluate_tick sc tick bp)) symbol = recorded (history_of sc symbol) tick"
    if "tk_sym tick = Some symbol" "tk_p tick \<noteq> None" "tk_t tick \<noteq> None"
  proof -
    from that obtain price ts where "tk_p tick = Some price" "tk_t tick = Some ts" by auto
    with that(1) show ?thesis
      by (simp add: evaluate_tick_snd [of tick symbol price ts] history_of_def)
  qed
  show ?thesis
    using inv step recorded_compacts [of "history_of sc symbol" tick]
      recorded_appends [of "history_of sc symbol" tick]
    by auto
qed


theorem history_length_invariant_witness:
  "history_bounded (scanner_run scanner_init eleven_ops) \<and>
   tk_sym (test_tick ''NVDA'' 11 57000000 1200) = Some ''NVDA'' \<and>
   2 * HISTORY_WINDOW < length (history_of full_scanner ''NVDA'' @ [test_tick ''NVDA'' 11 57000000 1200]) \<and>
   history_of (snd (evaluate_tick full_scanner (test_tick ''NVDA'' 11 57000000 1200) 1100)) ''NVDA'' =
     map price_tick [7, 8, 9, 10] @ [test_tick ''NVDA'' 11 57000000 1200] \<and>
   length (history_of (snd (evaluate_tick full_scanner (test_tick ''NVDA'' 11 57000000 1200) 1100))
              ''NVDA'') = 5"
  using history_length_invariant
    [of eleven_ops "test_tick ''NVDA'' 11 57000000 1200" "''NVDA''" full_scanner 1100]
  by (simp add: test_tick_def full_scanner_def history_of_def HISTORY_WINDOW_def)

subsection \<open>C6: the tick is recorded before any check\<close>

text \<open>
  Claim C6: for every well-formed tick (one that carries \<^verbatim>\<open>sym\<close>, \<^verbatim>\<open>p\<close> and \<^verbatim>\<open>t\<close>) and every
  engine state, \<^verbatim>\<open>evaluate\<close> appends the tick to its symbol's history before any rejecting
  check runs, so the tick is recorded also when the call returns false.

  Whatever the call returns or raises, the scanner it leaves holds for the tick's symbol
  the old history with the tick appended (compacted as in C4), the tick is its last
  entry, and no other symbol's history and not the reference price has changed.
\<close>

theorem evaluate_tick_records_before_checks:
  assumes "tk_sym tick = Some symbol" "tk_p tick = Some price" "tk_t tick = Some ts"
  shows "tick_history (snd (evaluate_tick sc tick bp)) symbol = Some (recorded (history_of sc symbol) tick) \<and>
         last (history_of (snd (evaluate_tick sc tick bp)) symbol) = tick \<and>
         (\<forall>other. other \<noteq> symbol \<longrightarrow>
            tick_history (snd (evaluate_tick sc tick bp)) other = tick_history sc other) \<and>
         spy_price (snd (evaluate_tick sc tick bp)) = spy_price sc"
  by (simp add: evaluate_tick_snd [OF assms] history_of_def recorded_last)


theorem evaluate_tick_records_before_checks_witness:
  "tk_sym valid_entry_tick = Some ''NVDA'' \<and> tk_p valid_entry_tick = Some 1140 \<and>
   tk_t valid_entry_tick = Some 57000000 \<and>
   fst (evaluate_tick scanner_init valid_entry_tick 1100) \<noteq> Inr True \<and>
   tick_history (snd (evaluate_tick scanner_init valid_entry_tick 1100)) ''NVDA'' =
     Some [valid_entry_tick]"
  using evaluate_tick_records_before_checks
    [of valid_entry_tick "''NVDA''" 1140 57000000 scanner_init 1100]
    valid_entry_tick_fields evaluate_tick_never_signals [of scanner_init valid_entry_tick 1100]
  by (simp add: recorded_def history_of_def scanner_init_def HISTORY_WINDOW_def)

subsection \<open>C7: no reference price, no signal\<close>

text \<open>
  Claim C7: for every tick and every base price, if the reference price is still
  undefined, \<^verbatim>\<open>evaluate\<close> returns false regardless of the tick's price, size, symbol and
  timestamp.

  A tick is a record with a symbol, a price and a timestamp; for each such tick the call
  returns \<open>False\<close>: the window test is not reached, so not even a timestamp outside the
  range of \<^verbatim>\<open>datetime\<close> or a base price of zero raises.
\<close>

theorem evaluate_tick_without_reference:
  assumes "spy_price sc = None"
    and "tk_sym tick = Some symbol" "tk_p tick = Some price" "tk_t tick = Some ts"
  shows "fst (evaluate_tick sc tick bp) = Inr False"
  using assms by (simp add: evaluate_tick_def Let_def)


theorem evaluate_tick_without_reference_witness:
  "spy_price scanner_init = None \<and> tk_sym valid_entry_tick = Some ''NVDA'' \<and>
   tk_p valid_entry_tick = Some 1140 \<and> tk_t valid_entry_tick = Some 57000000 \<and>
   fst (evaluate_tick scanner_init valid_entry_tick 1100) = Inr False"
  using evaluate_tick_without_reference
    [of scanner_init valid_entry_tick "''NVDA''" 1140 57000000 1100]
    valid_entry_tick_fields
  by (simp add: scanner_init_def)

subsection \<open>C9: division by a base price of zero\<close>

text \<open>The early exit comes before the division: without a reference price a tick
  evaluated with a base price of 0 returns false.\<close>

lemma zero_base_price_early_exit:
  "fst (evaluate_tick scanner_init valid_entry_tick 0) = Inr False"
  by code_simp

lemma valid_entry_zero_base:
  "fst (evaluate_tick valid_entry_scanner valid_entry_tick 0) = Inl ZeroDivisionError"
  by code_simp

text \<open>
  Claim C9: for some input, a well-formed tick evaluated with a base price of 0,
  \<^verbatim>\<open>evaluate\<close> raises an unguarded division-by-zero error in the relative-strength
  computation, after the tick has already been appended to the history; \<^verbatim>\<open>evaluate\<close> is
  total only under the precondition that the base price is not 0.

  For a well-formed tick whose price is in the range of a float, the call raises
  \<^verbatim>\<open>ZeroDivisionError\<close> exactly when the base price is 0 and the checks before the
  relative strength let the tick through: the reference price is defined and the
  timestamp is in the target window. Whenever the call raises, the tick is already the
  last entry of its symbol's history. Such an input exists, so with a base price of 0
  the function is not total.
\<close>

theorem zero_division_iff:
  assumes "tk_sym tick = Some symbol" "tk_p tick = Some price" "tk_t tick = Some ts"
    and "\<not> float_overflows price"
  shows "(fst (evaluate_tick sc tick bp) = Inl ZeroDivisionError) =
           (bp = 0 \<and> spy_price sc \<noteq> None \<and> in_final_15_minutes ts = Inr True) \<and>
         (\<forall>e. fst (evaluate_tick sc tick bp) = Inl e \<longrightarrow>
            last (history_of (snd (evaluate_tick sc tick bp)) symbol) = tick) \<and>
         (\<exists>sc' tick' symbol'.
            tk_sym tick' = Some symbol' \<and> tk_p tick' \<noteq> None \<and> tk_t tick' \<noteq> None \<and>
            fst (evaluate_tick sc' tick' 0) = Inl ZeroDivisionError \<and>
            last (history_of (snd (evaluate_tick sc' tick' 0)) symbol') = tick')"
proof -
  note wf = assms(1-3)
  have a: "last (history_of (snd (evaluate_tick sc tick bp)) symbol) = tick"
    by (simp add: evaluate_tick_snd [OF wf] history_of_def recorded_last)
  have b: "(fst (evaluate_tick sc tick bp) = Inl ZeroDivisionError) =
           (bp = 0 \<and> spy_price sc \<noteq> None \<and> in_final_15_minutes ts = Inr True)"
  proof (cases "spy_price sc = None")
    case True
    then show ?thesis by (simp add: evaluate_tick_fst [OF wf])
  next
    case spy: False
    show ?thesis
    proof (cases "in_final_15_minutes ts")
      case (Inl e)
      then have "e = TimestampRangeError" by (rule in_final_15_minutes_error)
      with Inl spy show ?thesis by (simp add: evaluate_tick_fst [OF wf])
    next
      case (Inr in_window)
      show ?thesis
      proof (cases in_window)
        case False
        with Inr spy show ?thesis by (simp add: evaluate_tick_fst [OF wf])
      next
        case True
        have zd: "(calculate_relative_strength (after_append sc symbol tick) price bp =
                     Inl ZeroDivisionError) = (bp = 0)"
          using assms(4) by (simp add: calculate_relative_strength_zero_division)
        show ?thesis
        proof (cases "calculate_relative_strength (after_append sc symbol tick) price bp")
          case (Inl e)
          with Inr True spy zd show ?thesis
            by (auto simp add: evaluate_tick_fst [OF wf])
        next
          case rs: (Inr rel_strength)
          then have nz: "bp \<noteq> 0" using zd by auto
          have "is_momentum_up (after_append sc symbol tick) symbol price \<noteq> Inl ZeroDivisionError"
            using is_momentum_up_error by fastforce
          with rs Inr True spy nz show ?thesis
            by (auto simp add: evaluate_tick_fst [OF wf] split: sum.splits)
        qed
      qed
    qed
  qed
  have c: "last (history_of (snd (evaluate_tick valid_entry_scanner valid_entry_tick 0)) ''NVDA'') =
           valid_entry_tick"
    using valid_entry_tick_fields
    by (simp add: evaluate_tick_snd [of valid_entry_tick "''NVDA''" 1140 57000000]
          history_of_def recorded_last)
  have d: "\<exists>sc' tick' symbol'.
            tk_sym tick' = Some symbol' \<and> tk_p tick' \<noteq> None \<and> tk_t tick' \<noteq> None \<and>
            fst (evaluate_tick sc' tick' 0) = Inl ZeroDivisionError \<and>
            last (history_of (snd (evaluate_tick sc' tick' 0)) symbol') = tick'"
    using valid_entry_tick_fields valid_entry_zero_base c
    by (intro exI [of _ valid_entry_scanner] exI [of _ valid_entry_tick] exI [of _ "''NVDA''"])
       simp
  show ?thesis using a b d by simp
qed

theorem zero_division_iff_witness:
  "tk_sym valid_entry_tick = Some ''NVDA'' \<and> tk_p valid_entry_tick = Some 1140 \<and>
   tk_t valid_entry_tick = Some 57000000 \<and> \<not> float_overflows 1140 \<and>
   spy_price valid_entry_scanner \<noteq> None \<and> in_final_15_minutes 57000000 = Inr True \<and>
   fst (evaluate_tick valid_entry_scanner valid_entry_tick 0) = Inl ZeroDivisionError \<and>
   last (history_of (snd (evaluate_tick valid_entry_scanner valid_entry_tick 0)) ''NVDA'') =
     valid_entry_tick"
  using zero_division_iff [of valid_entry_tick "''NVDA''" 1140 57000000 valid_entry_scanner 0]
    valid_entry_tick_fields in_window_57000000 not_overflows_1140
  by (simp add: valid_entry_scanner_def)

section \<open>Properties of the Orchestrator\<close>

subsection \<open>C5: the key of the history\<close>

text \<open>
  Claim C5: every tick's symbol is put in upper case at ingress and the history is keyed
  by that canonical symbol, so two ticks whose symbols differ only in letter case are
  recorded into the same history entry.

  \<^verbatim>\<open>handle_tick\<close> upper-cases the symbol for its own routing and for the base price, and
  passes the tick as received to \<^verbatim>\<open>evaluate_tick\<close>, which keys the history by
  \<^verbatim>\<open>tick["sym"]\<close>. After the ticks \<^verbatim>\<open>nvda\<close> and \<^verbatim>\<open>NVDA\<close>, whose upper-cased symbols are
  equal, the scanner holds two histories of one tick each.
\<close>

theorem history_keyed_by_raw_symbol:
  "upper ''nvda'' = upper ''NVDA'' \<and>
   tick_history (bot_scanner (handle_ticks trading_bot_init [lower_case_tick, upper_case_tick]))
     ''nvda'' = Some [lower_case_tick] \<and>
   tick_history (bot_scanner (handle_ticks trading_bot_init [lower_case_tick, upper_case_tick]))
     ''NVDA'' = Some [upper_case_tick]"
  by code_simp

section \<open>Properties of the Feed Connector\<close>

subsection \<open>Auxiliary facts\<close>

lemma on_close_retry:
  "should_reconnect c \<Longrightarrow> reconnect_attempts c < MAX_RECONNECT_ATTEMPTS \<Longrightarrow>
   on_close c = ([Sleep RECONNECT_DELAY, StartConnection],
                 c\<lparr>reconnect_attempts := reconnect_attempts c + 1, ws_created := True\<rparr>)"
  by (simp add: on_close_def run_def)

lemma on_close_capped:
  "\<not> reconnect_attempts c < MAX_RECONNECT_ATTEMPTS \<Longrightarrow> on_close c = ([], c)"
  by (simp add: on_close_def)

lemma closes_run:
  "should_reconnect c \<Longrightarrow> reconnect_attempts c \<le> MAX_RECONNECT_ATTEMPTS \<Longrightarrow>
   fst (ws_run c (replicate n Closed)) =
     concat (replicate (min n (MAX_RECONNECT_ATTEMPTS - reconnect_attempts c))
       [Sleep RECONNECT_DELAY, StartConnection]) \<and>
   reconnect_attempts (snd (ws_run c (replicate n Closed))) =
     min (reconnect_attempts c + n) MAX_RECONNECT_ATTEMPTS \<and>
   should_reconnect (snd (ws_run c (replicate n Closed)))"
proof (induction n arbitrary: c)
  case 0
  then show ?case by simp
next
  case (Suc n)
  show ?case
  proof (cases "reconnect_attempts c < MAX_RECONNECT_ATTEMPTS")
    case True
    let ?c = "c\<lparr>reconnect_attempts := reconnect_attempts c + 1, ws_created := True\<rparr>"
    have step: "on_close c = ([Sleep RECONNECT_DELAY, StartConnection], ?c)"
      using Suc.prems True by (simp add: on_close_retry)
    have ih: "fst (ws_run ?c (replicate n Closed)) =
        concat (replicate (min n (MAX_RECONNECT_ATTEMPTS - reconnect_attempts ?c))
          [Sleep RECONNECT_DELAY, StartConnection]) \<and>
      reconnect_attempts (snd (ws_run ?c (replicate n Closed))) =
        min (reconnect_attempts ?c + n) MAX_RECONNECT_ATTEMPTS \<and>
      should_reconnect (snd (ws_run ?c (replicate n Closed)))"
      using Suc.prems True by (intro Suc.IH) simp_all
    have m: "min (Suc n) (MAX_RECONNECT_ATTEMPTS - reconnect_attempts c) =
             Suc (min n (MAX_RECONNECT_ATTEMPTS - Suc (reconnect_attempts c)))"
      using True by simp
    show ?thesis
      using ih True by (simp add: step m split_beta)
  next
    case False
    have step: "on_close c = ([], c)" using False by (rule on_close_capped)
    have eq: "reconnect_attempts c = MAX_RECONNECT_ATTEMPTS" using False Suc.prems by simp
    have ih: "fst (ws_run c (replicate n Closed)) =
        concat (replicate (min n (MAX_RECONNECT_ATTEMPTS - reconnect_attempts c))
          [Sleep RECONNECT_DELAY, StartConnection]) \<and>
      reconnect_attempts (snd (ws_run c (replicate n Closed))) =
        min (reconnect_attempts c + n) MAX_RECONNECT_ATTEMPTS \<and>
      should_reconnect (snd (ws_run c (replicate n Closed)))"
      using Suc.prems by (intro Suc.IH)
    show ?thesis using ih eq by (simp add: step split_beta)
  qed
qed

lemma capped_stays_closed:
  "MAX_RECONNECT_ATTEMPTS \<le> reconnect_attempts c \<Longrightarrow> Opened \<notin> set evs \<Longrightarrow>
   StartConnection \<notin> set (fst (ws_run c evs)) \<and>
   reconnect_attempts (snd (ws_run c evs)) = reconnect_attempts c"
proof (induction evs arbitrary: c)
  case Nil
  then show ?case by simp
next
  case (Cons e es)
  show ?case
  proof (cases e)
    case Closed
    have step: "on_close c = ([], c)" using Cons.prems by (simp add: on_close_capped)
    show ?thesis using Cons.IH [of c] Cons.prems Closed by (simp add: step split_beta)
  next
    case Opened
    then show ?thesis using Cons.prems by simp
  next
    case Signalled
    let ?c = "c\<lparr>should_reconnect := False\<rparr>"
    have step: "snd (handle_signal c) = ?c \<and> StartConnection \<notin> set (fst (handle_signal c))"
      by (simp add: handle_signal_def Let_def)
    have "StartConnection \<notin> set (fst (ws_run ?c es)) \<and>
          reconnect_attempts (snd (ws_run ?c es)) = reconnect_attempts ?c"
      using Cons.prems by (intro Cons.IH) simp_all
    then show ?thesis using step Signalled by (simp add: split_beta)
  qed
qed


subsection \<open>C8: the cap on reconnection\<close>

text \<open>
  Claim C8: after \<^verbatim>\<open>max_reconnect_attempts\<close> (5) consecutive connection failures without an
  intervening successful connection, the connector is closed for good and never initiates
  another connection attempt; before the cap, each retry waits a fixed delay.

  A failure reaches the client as a call of \<^verbatim>\<open>on_close\<close>, a success as a call of
  \<^verbatim>\<open>on_open\<close>, which resets the counter. From a counter of zero, \<open>n\<close> closes in a row
  start \<open>min n 5\<close> connections, each after a sleep of the same \<^verbatim>\<open>RECONNECT_DELAY\<close>; the
  fifth close is the last whose handler starts one. Once five or more have been handled,
  no later sequence of closes and shutdown signals starts a connection, and the counter
  stays at the cap.
\<close>

theorem reconnect_cap:
  assumes "should_reconnect c" and "reconnect_attempts c = 0" and "Opened \<notin> set evs"
  shows "fst (ws_run c (replicate n Closed)) =
           concat (replicate (min n MAX_RECONNECT_ATTEMPTS) [Sleep RECONNECT_DELAY, StartConnection]) \<and>
         (MAX_RECONNECT_ATTEMPTS \<le> n \<longrightarrow>
            StartConnection \<notin> set (fst (ws_run (snd (ws_run c (replicate n Closed))) evs)) \<and>
            reconnect_attempts (snd (ws_run (snd (ws_run c (replicate n Closed))) evs)) =
              MAX_RECONNECT_ATTEMPTS)"
proof -
  have r: "fst (ws_run c (replicate n Closed)) =
       concat (replicate (min n (MAX_RECONNECT_ATTEMPTS - reconnect_attempts c))
         [Sleep RECONNECT_DELAY, StartConnection]) \<and>
     reconnect_attempts (snd (ws_run c (replicate n Closed))) =
       min (reconnect_attempts c + n) MAX_RECONNECT_ATTEMPTS"
    using closes_run [of c n] assms by simp
  show ?thesis
  proof (intro conjI impI)
    show "fst (ws_run c (replicate n Closed)) =
           concat (replicate (min n MAX_RECONNECT_ATTEMPTS) [Sleep RECONNECT_DELAY, StartConnection])"
      using r assms by simp
  next
    assume n: "MAX_RECONNECT_ATTEMPTS \<le> n"
    let ?c = "snd (ws_run c (replicate n Closed))"
    have a: "reconnect_attempts ?c = MAX_RECONNECT_ATTEMPTS" using r assms n by simp
    then have "MAX_RECONNECT_ATTEMPTS \<le> reconnect_attempts ?c" by simp
    from capped_stays_closed [OF this assms(3)] a
    show "StartConnection \<notin> set (fst (ws_run ?c evs))"
      and "reconnect_attempts (snd (ws_run ?c evs)) = MAX_RECONNECT_ATTEMPTS"
      by simp_all
  qed
qed

theorem reconnect_cap_witness:
  "should_reconnect ws_client_init \<and> reconnect_attempts ws_client_init = 0 \<and>
   Opened \<notin> set [Closed, Signalled, Closed] \<and>
   fst (ws_run ws_client_init (replicate 7 Closed)) =
     [Sleep 5, StartConnection, Sleep 5, StartConnection, Sleep 5, StartConnection,
      Sleep 5, StartConnection, Sleep 5, StartConnection] \<and>
   StartConnection \<notin> set (fst (ws_run (snd (ws_run ws_client_init (replicate 7 Closed)))
                                  [Closed, Signalled, Closed]))"
  using reconnect_cap [of ws_client_init "[Closed, Signalled, Closed]" 7]
  by (simp add: ws_client_init_def MAX_RECONNECT_ATTEMPTS_def RECONNECT_DELAY_def
        numeral_eq_Suc)

subsection \<open>C10: the import of \<^verbatim>\<open>publish_tick\<close>\<close>

text \<open>
  Claim C10: the connector imports \<^verbatim>\<open>publish_tick\<close> as a module-level name of
  \<^verbatim>\<open>redis_pubsub\<close>, which defines it only as a method of the class \<^verbatim>\<open>RedisPubSub\<close>; so for
  every inbound trade frame the connector's forwarding path never delivers a tick to the
  bus.

  \<^verbatim>\<open>publish_tick\<close> is among the methods of the class and not among the names the module
  binds, so the import raises and, for every sequence of frames, the program ends with
  \<^verbatim>\<open>ImportError\<close> and has handed over no tick.
\<close>

theorem publish_tick_import_fails:
  "''publish_tick'' \<in> set (class_methods ''RedisPubSub'' redis_pubsub_module) \<and>
   ''publish_tick'' \<notin> set (module_namespace redis_pubsub_module) \<and>
   polygon_ws_program frames = Inl (ImportError ''publish_tick'')"
  by (simp add: polygon_ws_program_def from_import_def module_namespace_def
        redis_pubsub_module_def)

section \<open>Properties of the Distribution Bus\<close>

lemma lower_AAPL: "lower ''AAPL'' = ''aapl''"
  by code_simp

text \<open>The timeout branch of the loop is taken only strictly after the deadline.\<close>

lemma timed_out_after_deadline:
  "timed_out (Some T) start_time now \<Longrightarrow> start_time + T < now"
  by (simp add: timed_out_def less_diff_eq add.commute)

subsection \<open>C2: the subscription timeout\<close>

text \<open>
  Claim C2: a subscriber with timeout \<open>T\<close> stops listening no later than \<open>T\<close> seconds after
  the subscribe call, even if no message ever arrives.

  The loop compares the clock with the deadline only in its body, which runs when
  \<^verbatim>\<open>listen()\<close> yields, and leaves only when the time elapsed is greater than the timeout.
  With a timeout of 2 seconds and a start at time 0: when only the subscription's
  confirmation arrives, the call is still listening and never returns; when the next
  message arrives at time 4, the call unsubscribes then, 2 seconds after the deadline;
  and when the client's socket timeout of 5 seconds ends the wait with a
  \<^verbatim>\<open>TimeoutError\<close>, the call unsubscribes at time 5.
\<close>

theorem subscription_outlives_timeout:
  "subscribe_to 3 healthy_env ''AAPL'' loads (Some 2) 0 [Yields 0 subscribe_confirmation] =
     (Inr (Listening, []), [BusSubscribe ''tick:aapl'']) \<and>
   subscribe_to 3 healthy_env ''AAPL'' loads (Some 2) 0
       [Yields 0 subscribe_confirmation, Yields 4 tick_message] =
     (Inr (Unsubscribed 4, []), [BusSubscribe ''tick:aapl'']) \<and>
   subscribe_to 3 healthy_env ''AAPL'' loads (Some 2) 0
       [Yields 0 subscribe_confirmation, Raises 5 RedisTimeoutError] =
     (Inr (Unsubscribed 5, []), [BusSubscribe ''tick:aapl''])"
  by (simp add: subscribe_to_def ensure_connection_def healthy_env_def timed_out_def
        subscribe_confirmation_def tick_message_def lower_AAPL)

subsection \<open>C3: the result of a failed publish\<close>

text \<open>
  Claim C3: a failed publish, by a transport or a serialization error, is reported to the
  caller as the result \<open>False\<close> and never raised; a successful one returns \<open>True\<close>.

  A payload that \<^verbatim>\<open>json.dumps\<close> rejects leaves \<^verbatim>\<open>publish_tick\<close> as an \<^verbatim>\<open>AttributeError\<close>,
  raised by the handler clause that names \<^verbatim>\<open>json.JSONEncodeError\<close>. With the server
  unreachable the decorator's \<^verbatim>\<open>_connect\<close> makes three attempts, sleeping 1 and 2
  seconds between them, and raises the \<^verbatim>\<open>ConnectionError\<close> of the last. With a healthy
  server the call returns \<open>True\<close> after one publish.
\<close>

theorem publish_failure_raises:
  "publish_tick 3 unserializable_env ''AAPL'' = (Inl (AttributeError ''JSONEncodeError''), []) \<and>
   publish_tick 3 redis_down_env ''AAPL'' =
     (Inl RedisConnectionError, [BusConnect, BusSleep 1, BusConnect, BusSleep 2, BusConnect]) \<and>
   publish_tick 3 healthy_env ''AAPL'' = (Inr True, [BusPublish ''tick:aapl'' ''{}''])"
  by code_simp

end
